theory Spec2Isabelle
  imports Complex_Main "HOL-Library.Multiset"
begin

section \<open>Data model\<close>

text \<open>
  The dashboard keeps two SQLite tables (\<open>users\<close>, \<open>predictions\<close>) and a per-session
  dictionary holding the last submitted profile and its predicted cost. The two select
  boxes of the predictor tab only offer \<open>male\<close>/\<open>female\<close> and the four region names, so
  both fields are enumerations. BMI is a Python float, read here as a real; ages and
  dependents are Python ints; \<open>datetime.now()\<close> is an input of every operation that
  stamps a row.

  A cost is a Python object whose class matters when it is bound to a SQL parameter:
  the Keras model yields \<open>numpy.float32\<close>, the scikit-learn model \<open>numpy.float64\<close>
  (a subclass of \<open>float\<close>), and \<open>max(0, x)\<close> yields the \<open>int\<close> 0 when \<open>x\<close> is not
  positive. Each carries the number it stands for.
\<close>

datatype number = Py_int int | Np_float32 real | Np_float64 real

fun num_val :: "number \<Rightarrow> real" where
  "num_val (Py_int i) = of_int i"
| "num_val (Np_float32 x) = x"
| "num_val (Np_float64 x) = x"

text \<open>\<open>max(0, x)\<close>: Python keeps its first argument unless the second is greater.\<close>

definition max0 :: "number \<Rightarrow> number" where
  "max0 x = (if 0 < num_val x then x else Py_int 0)"

text \<open>
  What the \<open>prediction REAL\<close> column holds after the \<open>sqlite3\<close> module has bound the
  parameter: a \<open>float\<close> (or subclass) is stored as a real, an \<open>int\<close> is converted to a
  real by the column's affinity, and a \<open>numpy.float32\<close>, which is no \<open>float\<close> but offers
  its four-byte buffer, is stored as a blob of those bytes.
\<close>

datatype sql_value = Sql_real real | Sql_blob_float32 real

fun sqlite_bind :: "number \<Rightarrow> sql_value" where
  "sqlite_bind (Py_int i) = Sql_real (of_int i)"
| "sqlite_bind (Np_float64 x) = Sql_real x"
| "sqlite_bind (Np_float32 x) = Sql_blob_float32 x"

datatype sex = Male | Female

datatype region = Northeast | Northwest | Southeast | Southwest

type_synonym timestamp = nat

record user_row =
  u_id :: nat
  u_username :: string
  u_password :: string
  u_created_at :: timestamp

record prediction_row =
  p_id :: nat
  p_username :: string
  p_age :: int
  p_sex :: sex
  p_bmi :: real
  p_children :: int
  p_smoker :: int
  p_region :: region
  p_prediction :: sql_value
  p_created_at :: timestamp

record database =
  users :: "user_row list"
  predictions :: "prediction_row list"

text \<open>The row tuple that \<open>get_user_predictions\<close> selects:
  age, sex, bmi, children, smoker, region, prediction, created\_at.\<close>

type_synonym history_row =
  "int \<times> sex \<times> real \<times> int \<times> int \<times> region \<times> sql_value \<times> timestamp"


section \<open>Credential store\<close>

text \<open>
  \<open>hash_password\<close> is \<open>hashlib.sha256(password.encode()).hexdigest()\<close>; the digest is a
  library function and enters every operation as the parameter \<open>hash_password\<close>.

  \<open>create_user\<close>: the \<open>INSERT\<close> violates the \<open>UNIQUE\<close> constraint on \<open>username\<close> exactly
  when a row with the same text (SQLite compares \<open>TEXT\<close> bytewise) is present; the
  \<open>IntegrityError\<close> is caught and \<open>False\<close> returned, nothing having been written.
  Otherwise the row is appended with the next row id and \<open>True\<close> returned.
\<close>

definition create_user ::
  "(string \<Rightarrow> string) \<Rightarrow> database \<Rightarrow> string \<Rightarrow> string \<Rightarrow> timestamp \<Rightarrow> bool \<times> database" where
  "create_user hash_password d username password now =
     (let hashed_pw = hash_password password in
      if username \<in> set (map u_username (users d)) then (False, d)
      else (True, d\<lparr>users := users d @
              [\<lparr>u_id = Suc (length (users d)), u_username = username,
                u_password = hashed_pw, u_created_at = now\<rparr>]\<rparr>))"

text \<open>\<open>verify_user\<close>: \<open>SELECT * FROM users WHERE username=? AND password=?\<close>, then
  \<open>fetchone() is not None\<close>.\<close>

definition verify_user ::
  "(string \<Rightarrow> string) \<Rightarrow> database \<Rightarrow> string \<Rightarrow> string \<Rightarrow> bool" where
  "verify_user hash_password d username password =
     (let hashed_pw = hash_password password;
          user = find (\<lambda>r. u_username r = username \<and> u_password r = hashed_pw) (users d)
      in user \<noteq> None)"

section \<open>Prediction ledger\<close>

definition save_prediction ::
  "database \<Rightarrow> string \<Rightarrow> int \<Rightarrow> sex \<Rightarrow> real \<Rightarrow> int \<Rightarrow> int \<Rightarrow> region \<Rightarrow> number \<Rightarrow> timestamp
     \<Rightarrow> database" where
  "save_prediction d username age sex bmi children smoker region prediction now =
     d\<lparr>predictions := predictions d @
        [\<lparr>p_id = Suc (length (predictions d)), p_username = username, p_age = age,
          p_sex = sex, p_bmi = bmi, p_children = children, p_smoker = smoker,
          p_region = region, p_prediction = sqlite_bind prediction, p_created_at = now\<rparr>]\<rparr>"

text \<open>
  \<open>ORDER BY created_at DESC\<close>: the rows in descending order of \<open>created_at\<close>, rows with
  equal stamps in the order they were inserted, as SQLite's sorter returns them. The
  table is walked from its last row to its first, each row put in front of the rows
  already placed whose stamp is not later than its own.
\<close>

fun insert_desc :: "prediction_row \<Rightarrow> prediction_row list \<Rightarrow> prediction_row list" where
  "insert_desc r [] = [r]"
| "insert_desc r (x # xs) =
     (if p_created_at x \<le> p_created_at r then r # x # xs else x # insert_desc r xs)"

definition order_by_created_at_desc :: "prediction_row list \<Rightarrow> prediction_row list" where
  "order_by_created_at_desc rs = foldr insert_desc rs []"

definition select_columns :: "prediction_row \<Rightarrow> history_row" where
  "select_columns r =
     (p_age r, p_sex r, p_bmi r, p_children r, p_smoker r, p_region r,
      p_prediction r, p_created_at r)"

definition get_user_predictions :: "database \<Rightarrow> string \<Rightarrow> history_row list" where
  "get_user_predictions d username =
     map select_columns
       (order_by_created_at_desc (filter (\<lambda>r. p_username r = username) (predictions d)))"

section \<open>Model artifacts and session state\<close>

text \<open>
  \<open>load_model_and_scaler\<close> returns the pickled scaler and regression model together with
  the tag of the library that loaded it. Both are black boxes: the scaler maps a feature
  row to a feature row, the model maps a scaled row to one number. The handlers take
  \<open>[0][0]\<close> of the TensorFlow result, a \<open>numpy.float32\<close>, or \<open>[0]\<close> of the scikit-learn
  result, a \<open>numpy.float64\<close>.
\<close>

datatype model_type = Tensorflow | Sklearn

record artifacts =
  scaler_transform :: "real list \<Rightarrow> real list"
  model_predict :: "real list \<Rightarrow> real"
  model_type :: model_type

definition run_model :: "artifacts \<Rightarrow> real list \<Rightarrow> number" where
  "run_model a features_scaled =
     (case model_type a of
        Tensorflow \<Rightarrow> Np_float32 (model_predict a features_scaled)
      | Sklearn \<Rightarrow> Np_float64 (model_predict a features_scaled))"

text \<open>
  The profile dictionary \<open>last_formdata\<close> is a mutable object: the session holds a
  reference to it and every scenario works on \<open>.copy()\<close> of it. Dictionaries therefore
  live in a store, addressed by numbers, with \<open>next_addr\<close> the first address never
  handed out.
\<close>

type_synonym addr = nat

record formdata =
  fd_age :: int
  fd_sex :: sex
  fd_bmi :: real
  fd_children :: int
  fd_smoker :: bool
  fd_region :: region

record app_state =
  db :: database
  session_username :: string
  last_prediction :: "number option"
  last_formdata :: "addr option"
  store :: "addr \<Rightarrow> formdata option"
  next_addr :: addr

definition new_dict :: "formdata \<Rightarrow> app_state \<Rightarrow> addr \<times> app_state" where
  "new_dict fd s =
     (next_addr s, s\<lparr>store := (store s)(next_addr s \<mapsto> fd), next_addr := Suc (next_addr s)\<rparr>)"

definition set_dict :: "addr \<Rightarrow> formdata \<Rightarrow> app_state \<Rightarrow> app_state" where
  "set_dict a fd s = s\<lparr>store := (store s)(a \<mapsto> fd)\<rparr>"

text \<open>Reading \<open>st.session_state.last_formdata\<close>: the dictionary the session refers to.\<close>

definition session_formdata :: "app_state \<Rightarrow> formdata option" where
  "session_formdata s = (case last_formdata s of None \<Rightarrow> None | Some a \<Rightarrow> store s a)"

section \<open>Predictor tab\<close>

fun region_mapping :: "region \<Rightarrow> int" where
  "region_mapping Northwest = 0"
| "region_mapping Northeast = 1"
| "region_mapping Southwest = 2"
| "region_mapping Southeast = 3"

text \<open>
  The handler of the Predict Cost button. It returns the new state, the feature rows
  handed to the scaler and model during the run, and the cost it displays.
\<close>

definition predict_cost ::
  "artifacts \<Rightarrow> timestamp \<Rightarrow> int \<Rightarrow> sex \<Rightarrow> real \<Rightarrow> int \<Rightarrow> bool \<Rightarrow> region \<Rightarrow> app_state
     \<Rightarrow> app_state \<times> real list list \<times> number" where
  "predict_cost a now age sex bmi children smoker region s =
     (let sex_encoded = (if sex = Female then 0 else 1);
          smoker_encoded = (if smoker then 1 else 0);
          region_encoded = region_mapping region;
          features = [of_int age, sex_encoded, bmi, of_int children, smoker_encoded,
                      of_int region_encoded];
          features_scaled = scaler_transform a features;
          prediction = run_model a features_scaled;
          prediction = max0 prediction;
          s1 = s\<lparr>db := save_prediction (db s) (session_username s) age sex bmi children
                          (if smoker then 1 else 0) region prediction now\<rparr>;
          s2 = s1\<lparr>last_prediction := Some prediction\<rparr>;
          (d, s3) = new_dict \<lparr>fd_age = age, fd_sex = sex, fd_bmi = bmi, fd_children = children,
                              fd_smoker = smoker, fd_region = region\<rparr> s2
      in (s3\<lparr>last_formdata := Some d\<rparr>, [features], prediction))"

section \<open>Scenarios tab\<close>

text \<open>
  \<open>savings / last_prediction\<close> is written with no test of the divisor. The dividend is
  always a numpy scalar (the model output enters it), so the division is numpy's: by
  zero it raises nothing and gives \<open>inf\<close>, \<open>-inf\<close> or \<open>nan\<close> according to the sign of
  the dividend; multiplying by 100 leaves these as they are.
\<close>

datatype quotient = Quot real | Pos_inf | Neg_inf | Nan

definition division_by_zero :: "real \<Rightarrow> quotient" where
  "division_by_zero x = (if 0 < x then Pos_inf else if x < 0 then Neg_inf else Nan)"

definition py_div :: "real \<Rightarrow> real \<Rightarrow> quotient" where
  "py_div x y = (if y = 0 then division_by_zero x else Quot (x / y))"

fun scale_quotient :: "quotient \<Rightarrow> real \<Rightarrow> quotient" where
  "scale_quotient (Quot q) k = Quot (q * k)"
| "scale_quotient Pos_inf k = Pos_inf"
| "scale_quotient Neg_inf k = Neg_inf"
| "scale_quotient Nan k = Nan"

datatype error = AttributeError | ValueError

text \<open>What a scenario button puts on the page.\<close>

datatype shown =
    Predict_first
  | Already_non_smoker
  | Quit_smoking_metrics real quotient real
  | Lose_weight_metrics real quotient real
  | Change_region_metrics region real quotient
  | Project_metrics int real real
  | Raised error

text \<open>The percent figure on the page, when there is one, and whether the run raised.\<close>

fun reported_percent :: "shown \<Rightarrow> quotient option" where
  "reported_percent (Quit_smoking_metrics savings pct_change new_pred) = Some pct_change"
| "reported_percent (Lose_weight_metrics savings pct_change new_bmi) = Some pct_change"
| "reported_percent (Change_region_metrics new_region difference pct_change) = Some pct_change"
| "reported_percent other = None"

fun is_raised :: "shown \<Rightarrow> bool" where
  "is_raised (Raised e) = True"
| "is_raised other = False"

text \<open>\<open>regions.index(x)\<close>: the first position of \<open>x\<close>, \<open>ValueError\<close> when absent.\<close>

fun index_of :: "'a \<Rightarrow> 'a list \<Rightarrow> nat option" where
  "index_of x [] = None"
| "index_of x (y # ys) =
     (if x = y then Some 0 else (case index_of x ys of None \<Rightarrow> None | Some i \<Rightarrow> Some (Suc i)))"

definition regions :: "region list" where
  "regions = [Northwest, Northeast, Southwest, Southeast]"

definition next_region :: "region \<Rightarrow> region option" where
  "next_region r =
     (case index_of r regions of
        None \<Rightarrow> None
      | Some current_idx \<Rightarrow> Some (regions ! ((current_idx + 1) mod length regions)))"

text \<open>
  The four buttons. Each is offered only when \<open>last_prediction\<close> is in the session;
  each returns the new state, the feature rows handed to the scaler and model, and what
  is displayed. The metrics are formatted as decimal numbers, so they are kept as the
  numbers they stand for.
\<close>

definition quit_smoking :: "artifacts \<Rightarrow> app_state \<Rightarrow> app_state \<times> real list list \<times> shown" where
  "quit_smoking a s =
     (case last_prediction s of
        None \<Rightarrow> (s, [], Predict_first)
      | Some last_pred \<Rightarrow>
         (case (last_formdata s, session_formdata s) of
            (Some base, Some fd) \<Rightarrow>
              if fd_smoker fd then
                (let (m, s1) = new_dict fd s;
                     modified = fd\<lparr>fd_smoker := False\<rparr>;
                     s2 = set_dict m modified s1;
                     sex_encoded = (if fd_sex modified = Female then 0 else 1);
                     features = [of_int (fd_age modified), sex_encoded, fd_bmi modified,
                                 of_int (fd_children modified), 0,
                                 of_int (region_mapping (fd_region modified))];
                     features_scaled = scaler_transform a features;
                     new_pred = num_val (run_model a features_scaled);
                     savings = num_val last_pred - new_pred;
                     pct_change = scale_quotient (py_div savings (num_val last_pred)) 100
                 in (s2, [features], Quit_smoking_metrics savings pct_change new_pred))
              else (s, [], Already_non_smoker)
          | _ \<Rightarrow> (s, [], Raised AttributeError)))"

definition lose_weight :: "artifacts \<Rightarrow> app_state \<Rightarrow> app_state \<times> real list list \<times> shown" where
  "lose_weight a s =
     (case last_prediction s of
        None \<Rightarrow> (s, [], Predict_first)
      | Some last_pred \<Rightarrow>
         (case (last_formdata s, session_formdata s) of
            (Some base, Some fd) \<Rightarrow>
              (let (m, s1) = new_dict fd s;
                   modified = fd\<lparr>fd_bmi := max 10 (fd_bmi fd - 5)\<rparr>;
                   s2 = set_dict m modified s1;
                   sex_encoded = (if fd_sex modified = Female then 0 else 1);
                   smoker_encoded = (if fd_smoker modified then 1 else 0);
                   features = [of_int (fd_age modified), sex_encoded, fd_bmi modified,
                               of_int (fd_children modified), smoker_encoded,
                               of_int (region_mapping (fd_region modified))];
                   features_scaled = scaler_transform a features;
                   new_pred = num_val (run_model a features_scaled);
                   savings = num_val last_pred - new_pred;
                   pct_change = scale_quotient (py_div savings (num_val last_pred)) 100
               in (s2, [features], Lose_weight_metrics savings pct_change (fd_bmi modified)))
          | _ \<Rightarrow> (s, [], Raised AttributeError)))"

definition change_region :: "artifacts \<Rightarrow> app_state \<Rightarrow> app_state \<times> real list list \<times> shown" where
  "change_region a s =
     (case last_prediction s of
        None \<Rightarrow> (s, [], Predict_first)
      | Some last_pred \<Rightarrow>
         (case (last_formdata s, session_formdata s) of
            (Some base, Some fd) \<Rightarrow>
              (let (m, s1) = new_dict fd s in
               case next_region (fd_region fd) of
                 None \<Rightarrow> (s1, [], Raised ValueError)
               | Some r \<Rightarrow>
                  (let modified = fd\<lparr>fd_region := r\<rparr>;
                       s2 = set_dict m modified s1;
                       sex_encoded = (if fd_sex modified = Female then 0 else 1);
                       smoker_encoded = (if fd_smoker modified then 1 else 0);
                       features = [of_int (fd_age modified), sex_encoded, fd_bmi modified,
                                   of_int (fd_children modified), smoker_encoded,
                                   of_int (region_mapping (fd_region modified))];
                       features_scaled = scaler_transform a features;
                       new_pred = num_val (run_model a features_scaled);
                       difference = new_pred - num_val last_pred;
                       pct_change = scale_quotient (py_div difference (num_val last_pred)) 100
                   in (s2, [features],
                       Change_region_metrics (fd_region modified) difference pct_change)))
          | _ \<Rightarrow> (s, [], Raised AttributeError)))"

definition project_10_years :: "artifacts \<Rightarrow> app_state \<Rightarrow> app_state \<times> real list list \<times> shown" where
  "project_10_years a s =
     (case last_prediction s of
        None \<Rightarrow> (s, [], Predict_first)
      | Some last_pred \<Rightarrow>
         (case (last_formdata s, session_formdata s) of
            (Some base, Some fd) \<Rightarrow>
              (let (m, s1) = new_dict fd s;
                   modified = fd\<lparr>fd_age := min 100 (fd_age fd + 10)\<rparr>;
                   s2 = set_dict m modified s1;
                   sex_encoded = (if fd_sex modified = Female then 0 else 1);
                   smoker_encoded = (if fd_smoker modified then 1 else 0);
                   features = [of_int (fd_age modified), sex_encoded, fd_bmi modified,
                               of_int (fd_children modified), smoker_encoded,
                               of_int (region_mapping (fd_region modified))];
                   features_scaled = scaler_transform a features;
                   new_pred = num_val (run_model a features_scaled);
                   difference = new_pred - num_val last_pred;
                   pct_change = scale_quotient (py_div difference (num_val last_pred)) 100
               in (s2, [features], Project_metrics (fd_age modified) new_pred difference))
          | _ \<Rightarrow> (s, [], Raised AttributeError)))"

text \<open>
  The encoding as the specification of the inference adapter words it (the handlers
  above write it out inline, each on its own): a profile becomes the row
  \<open>[age, sex_code, bmi, children, smoker_code, region_code]\<close> with female 0, male 1,
  non-smoker 0, smoker 1 and the regions numbered northwest 0, northeast 1, southwest 2,
  southeast 3.
\<close>

definition sex_code :: "sex \<Rightarrow> real" where
  "sex_code x = (case x of Female \<Rightarrow> 0 | Male \<Rightarrow> 1)"

definition smoker_code :: "bool \<Rightarrow> real" where
  "smoker_code b = (if b then 1 else 0)"

definition region_code :: "region \<Rightarrow> real" where
  "region_code r = (case r of Northwest \<Rightarrow> 0 | Northeast \<Rightarrow> 1 | Southwest \<Rightarrow> 2 | Southeast \<Rightarrow> 3)"

definition encode :: "formdata \<Rightarrow> real list" where
  "encode p =
     [of_int (fd_age p), sex_code (fd_sex p), fd_bmi p, of_int (fd_children p),
      smoker_code (fd_smoker p), region_code (fd_region p)]"

section \<open>Runs of a session\<close>

text \<open>
  A session starts at login with nothing predicted yet; afterwards the user presses the
  Predict Cost button (with the values of the six widgets) or one of the scenario
  buttons, in any order. The clock value is read when a prediction is saved.
\<close>

definition init_state :: "database \<Rightarrow> string \<Rightarrow> app_state" where
  "init_state d username =
     \<lparr>db = d, session_username = username, last_prediction = None, last_formdata = None,
      store = Map.empty, next_addr = 0\<rparr>"

datatype event =
    Predict timestamp int sex real int bool region
  | Quit_smoking
  | Lose_weight
  | Change_region
  | Project_10_years

fun step :: "artifacts \<Rightarrow> app_state \<Rightarrow> event \<Rightarrow> app_state" where
  "step a s (Predict now age sex bmi children smoker region) =
     fst (predict_cost a now age sex bmi children smoker region s)"
| "step a s Quit_smoking = fst (quit_smoking a s)"
| "step a s Lose_weight = fst (lose_weight a s)"
| "step a s Change_region = fst (change_region a s)"
| "step a s Project_10_years = fst (project_10_years a s)"

definition run :: "artifacts \<Rightarrow> app_state \<Rightarrow> event list \<Rightarrow> app_state" where
  "run a s evs = foldl (step a) s evs"

text \<open>The dictionary the session refers to has been handed out by the store.\<close>

definition session_allocated :: "app_state \<Rightarrow> bool" where
  "session_allocated s =
     (case last_formdata s of None \<Rightarrow> True | Some b \<Rightarrow> b < next_addr s \<and> store s b \<noteq> None)"

section \<open>Sample values\<close>

text \<open>
  A database with no rows, a stand-in digest, and a linear regression model with the
  identity as scaler: 25000 per unit of the smoker feature, minus 500.
\<close>

definition empty_db :: database where
  "empty_db = \<lparr>users = [], predictions = []\<rparr>"

definition sample_digest :: "string \<Rightarrow> string" where
  "sample_digest password = ''sha256:'' @ password"

definition sample_artifacts :: artifacts where
  "sample_artifacts =
     \<lparr>scaler_transform = (\<lambda>features. features),
      model_predict = (\<lambda>features_scaled. 25000 * (features_scaled ! 4) - 500),
      model_type = Sklearn\<rparr>"

definition sample_smoker :: formdata where
  "sample_smoker =
     \<lparr>fd_age = 30, fd_sex = Male, fd_bmi = 25, fd_children = 0, fd_smoker = True,
      fd_region = Northwest\<rparr>"

definition sample_db :: database where
  "sample_db =
     \<lparr>users = [\<lparr>u_id = 1, u_username = ''alice'', u_password = ''sha256:secret1'',
                u_created_at = 3\<rparr>],
      predictions = []\<rparr>"

definition sample_state :: app_state where
  "sample_state =
     \<lparr>db = save_prediction sample_db ''alice'' 30 Male 25 0 1 Northwest (Np_float64 24500) 7,
      session_username = ''alice'', last_prediction = Some (Np_float64 24500),
      last_formdata = Some 0, store = [0 \<mapsto> sample_smoker], next_addr = 1\<rparr>"

text \<open>
  The same model loaded from \<open>model.keras\<close>, and the session of a non-smoker, for whom
  the sample model returns -500 and the baseline is therefore 0.
\<close>

definition sample_keras :: artifacts where
  "sample_keras = sample_artifacts\<lparr>model_type := Tensorflow\<rparr>"

definition sample_zero_state :: app_state where
  "sample_zero_state =
     \<lparr>db = save_prediction sample_db ''alice'' 30 Male 25 0 0 Northwest (Py_int 0) 8,
      session_username = ''alice'', last_prediction = Some (Py_int 0),
      last_formdata = Some 0, store = [0 \<mapsto> sample_smoker\<lparr>fd_smoker := False\<rparr>],
      next_addr = 1\<rparr>"

text \<open>The frame a scenario has to respect: the tables and the session's baseline.\<close>

definition baseline_kept :: "app_state \<Rightarrow> app_state \<Rightarrow> bool" where
  "baseline_kept s s' =
     (db s' = db s \<and> session_username s' = session_username s \<and>
      last_prediction s' = last_prediction s \<and> last_formdata s' = last_formdata s \<and>
      session_formdata s' = session_formdata s)"

section \<open>Credential store: signup and login\<close>

lemma find_append_miss:
  "find P xs = None \<Longrightarrow> find P (xs @ ys) = find P ys"
  by (induction xs) (auto split: if_splits)

lemma find_None_username:
  "u \<notin> set (map u_username rs) \<Longrightarrow> find (\<lambda>r. u_username r = u \<and> Q r) rs = None"
  by (induction rs) auto

lemma create_user_success:
  "create_user h d u p now = (True, d') \<Longrightarrow>
     u \<notin> set (map u_username (users d)) \<and>
     users d' = users d @ [\<lparr>u_id = Suc (length (users d)), u_username = u,
                             u_password = h p, u_created_at = now\<rparr>]"
  by (auto simp: create_user_def Let_def split: if_splits)

text \<open>
  Claim C4. After \<open>create_user\<close> has succeeded for a username and password,
  \<open>verify_user\<close> accepts that pair, rejects the same username with any password whose
  digest differs from the stored one, and rejects every username that has no row. The
  digest is a parameter; for a collision-free digest "a different digest" is "a different
  password".
\<close>

theorem create_then_verify:
  assumes "create_user hash_password d username password now = (True, d')"
  shows "verify_user hash_password d' username password \<and>
         (hash_password wrong \<noteq> hash_password password
            \<longrightarrow> \<not> verify_user hash_password d' username wrong) \<and>
         (other \<notin> set (map u_username (users d'))
            \<longrightarrow> \<not> verify_user hash_password d' other pw)"
proof -
  from create_user_success [OF assms]
  have fresh: "username \<notin> set (map u_username (users d))"
    and rows: "users d' = users d @ [\<lparr>u_id = Suc (length (users d)), u_username = username,
                             u_password = hash_password password, u_created_at = now\<rparr>]"
    by simp_all
  note miss = find_append_miss [OF find_None_username [OF fresh]]
  have same: "verify_user hash_password d' username password"
    by (simp add: verify_user_def Let_def rows miss)
  have wrong: "\<not> verify_user hash_password d' username wrong"
    if "hash_password wrong \<noteq> hash_password password"
    using that by (simp add: verify_user_def Let_def rows miss)
  have unknown: "\<not> verify_user hash_password d' other pw"
    if "other \<notin> set (map u_username (users d'))"
    by (simp add: verify_user_def Let_def find_None_username [OF that])
  from same wrong unknown show ?thesis by blast
qed

theorem create_then_verify_witness:
  "create_user sample_digest empty_db ''alice'' ''secret1'' 3 = (True, sample_db) \<and>
   sample_digest ''secret2'' \<noteq> sample_digest ''secret1'' \<and>
   ''bob'' \<notin> set (map u_username (users sample_db)) \<and>
   verify_user sample_digest sample_db ''alice'' ''secret1'' \<and>
   \<not> verify_user sample_digest sample_db ''alice'' ''secret2'' \<and>
   \<not> verify_user sample_digest sample_db ''bob'' ''secret1''"
proof -
  have made: "create_user sample_digest empty_db ''alice'' ''secret1'' 3 = (True, sample_db)"
    by (simp add: create_user_def empty_db_def sample_db_def sample_digest_def)
  have differ: "sample_digest ''secret2'' \<noteq> sample_digest ''secret1''"
    by (simp add: sample_digest_def)
  have absent: "''bob'' \<notin> set (map u_username (users sample_db))"
    by (simp add: sample_db_def)
  from create_then_verify [OF made, of "''secret2''" "''bob''" "''secret1''"] made differ absent
  show ?thesis by blast
qed



section \<open>Prediction ledger: history\<close>











section \<open>Predictor tab: clamping and persistence\<close>

lemma max0_nonneg: "0 \<le> num_val (max0 x)"
  by (simp add: max0_def)

lemma predict_cost_clamped:
  "(let (s', calls, cost) = predict_cost a now age sex bmi children smoker region s in
      0 \<le> num_val cost \<and>
      cost = max0 (run_model a (scaler_transform a (hd calls))) \<and>
      last_prediction s' = Some cost \<and>
      predictions (db s') = predictions (db s) @
        [\<lparr>p_id = Suc (length (predictions (db s))), p_username = session_username s,
          p_age = age, p_sex = sex, p_bmi = bmi, p_children = children,
          p_smoker = (if smoker then 1 else 0), p_region = region,
          p_prediction = sqlite_bind cost, p_created_at = now\<rparr>])"
  by (simp add: predict_cost_def Let_def new_dict_def save_prediction_def max0_nonneg)

text \<open>
  Claim C1. The cost produced by the Predict Cost handler is never negative, and the
  \<open>predictions\<close> row of that run is meant to carry the same number. With the model
  loaded from \<open>model.keras\<close> it does not: for the sample smoker the handler shows
  24500, a \<open>numpy.float32\<close>, and the row it saves holds the four bytes of that object
  as a blob, which is what the history query then returns.
\<close>

theorem predict_cost_stores_blob:
  "(let (s', calls, cost) =
          predict_cost sample_keras 7 30 Male 25 0 True Northwest (init_state sample_db ''alice'')
    in cost = Np_float32 24500 \<and>
       map p_prediction (predictions (db s')) = [Sql_blob_float32 24500] \<and>
       get_user_predictions (db s') ''alice''
         = [(30, Male, 25, 0, 1, Northwest, Sql_blob_float32 24500, 7)])"
  by (simp add: predict_cost_def Let_def init_state_def sample_db_def sample_keras_def
      sample_artifacts_def run_model_def max0_def new_dict_def save_prediction_def
      get_user_predictions_def order_by_created_at_desc_def select_columns_def)

lemma sample_zero_state_reached:
  "fst (predict_cost sample_artifacts 8 30 Male 25 0 False Northwest
          (init_state sample_db ''alice''))
     = sample_zero_state"
  by (simp add: sample_zero_state_def predict_cost_def Let_def init_state_def sample_db_def
     sample_artifacts_def run_model_def max0_def new_dict_def save_prediction_def
     sample_smoker_def)

lemma sample_state_reached:
  "fst (predict_cost sample_artifacts 7 30 Male 25 0 True Northwest (init_state sample_db ''alice''))
     = sample_state"
  by (simp add: sample_state_def predict_cost_def Let_def init_state_def sample_db_def
     sample_artifacts_def run_model_def max0_def new_dict_def save_prediction_def
     sample_smoker_def)

section \<open>Scenarios: the modified profile and its features\<close>

lemma encode_explicit:
  "encode p =
     [of_int (fd_age p), (if fd_sex p = Female then 0 else 1), fd_bmi p, of_int (fd_children p),
      (if fd_smoker p then 1 else 0), of_int (region_mapping (fd_region p))]"
  by (cases "fd_sex p"; cases "fd_region p")
     (simp_all add: encode_def sex_code_def smoker_code_def region_code_def)

lemma session_formdata_eq:
  "last_formdata s = Some b \<Longrightarrow> store s b = Some fd \<Longrightarrow> session_formdata s = Some fd"
  by (simp add: session_formdata_def)

lemma next_region_total: "\<exists>r'. next_region r = Some r'"
  by (cases r) (simp_all add: next_region_def regions_def)


text \<open>
  Claim C8. With a baseline in the session, Quit Smoking on a non-smoker baseline leaves
  the state as it is, hands nothing to the model and shows the already-a-non-smoker
  message; the savings metrics are shown exactly when the baseline is a smoker, and the
  model is called once in that case and not at all otherwise.
\<close>

theorem quit_smoking_non_smoker:
  assumes "last_prediction s = Some cost" and "last_formdata s = Some b"
    and "store s b = Some fd"
  shows "(\<not> fd_smoker fd \<longrightarrow> quit_smoking a s = (s, [], Already_non_smoker)) \<and>
         ((\<exists>savings pct new_pred.
             snd (snd (quit_smoking a s)) = Quit_smoking_metrics savings pct new_pred)
          = fd_smoker fd) \<and>
         length (fst (snd (quit_smoking a s))) = (if fd_smoker fd then 1 else 0)"
  using assms
  by (simp add: quit_smoking_def session_formdata_eq Let_def new_dict_def set_dict_def)

theorem quit_smoking_non_smoker_witness:
  "quit_smoking sample_artifacts
     (sample_state\<lparr>store := [0 \<mapsto> sample_smoker\<lparr>fd_smoker := False\<rparr>]\<rparr>)
   = (sample_state\<lparr>store := [0 \<mapsto> sample_smoker\<lparr>fd_smoker := False\<rparr>]\<rparr>, [],
      Already_non_smoker) \<and>
   length (fst (snd (quit_smoking sample_artifacts sample_state))) = 1"
proof -
  let ?s = "sample_state\<lparr>store := [0 \<mapsto> sample_smoker\<lparr>fd_smoker := False\<rparr>]\<rparr>"
  have n1: "last_prediction ?s = Some (Np_float64 24500)" and n2: "last_formdata ?s = Some 0"
    and n3: "store ?s 0 = Some (sample_smoker\<lparr>fd_smoker := False\<rparr>)"
    by (simp_all add: sample_state_def)
  have y1: "last_prediction sample_state = Some (Np_float64 24500)"
    and y2: "last_formdata sample_state = Some 0"
    and y3: "store sample_state 0 = Some sample_smoker"
    by (simp_all add: sample_state_def)
  have no: "\<not> fd_smoker (sample_smoker\<lparr>fd_smoker := False\<rparr>)" by simp
  have yes: "fd_smoker sample_smoker" by (simp add: sample_smoker_def)
  from quit_smoking_non_smoker [OF n1 n2 n3, of sample_artifacts] no
       quit_smoking_non_smoker [OF y1 y2 y3, of sample_artifacts] yes
  show ?thesis by simp
qed

subsection \<open>What each handler hands to the scaler and model\<close>

lemma predict_cost_features:
  "snd (predict_cost a now age sex bmi children smoker region s) =
     (let x = encode \<lparr>fd_age = age, fd_sex = sex, fd_bmi = bmi, fd_children = children,
                      fd_smoker = smoker, fd_region = region\<rparr>
      in ([x], max0 (run_model a (scaler_transform a x))))"
  by (simp add: predict_cost_def Let_def new_dict_def encode_explicit)

lemma quit_smoking_features:
  assumes "last_prediction s = Some cost" and "last_formdata s = Some b"
    and "store s b = Some fd" and "fd_smoker fd"
  shows "snd (quit_smoking a s) =
     (let x = encode (fd\<lparr>fd_smoker := False\<rparr>);
          new_pred = num_val (run_model a (scaler_transform a x))
      in ([x], Quit_smoking_metrics (num_val cost - new_pred)
                 (scale_quotient (py_div (num_val cost - new_pred) (num_val cost)) 100) new_pred))"
  using assms
  by (simp add: quit_smoking_def session_formdata_eq Let_def new_dict_def encode_explicit)

lemma lose_weight_features:
  assumes "last_prediction s = Some cost" and "last_formdata s = Some b"
    and "store s b = Some fd"
  shows "snd (lose_weight a s) =
     (let x = encode (fd\<lparr>fd_bmi := max 10 (fd_bmi fd - 5)\<rparr>);
          new_pred = num_val (run_model a (scaler_transform a x))
      in ([x], Lose_weight_metrics (num_val cost - new_pred)
                 (scale_quotient (py_div (num_val cost - new_pred) (num_val cost)) 100)
                 (max 10 (fd_bmi fd - 5))))"
  using assms
  by (simp add: lose_weight_def session_formdata_eq Let_def new_dict_def encode_explicit)

lemma change_region_features:
  assumes "last_prediction s = Some cost" and "last_formdata s = Some b"
    and "store s b = Some fd" and "next_region (fd_region fd) = Some r"
  shows "snd (change_region a s) =
     (let x = encode (fd\<lparr>fd_region := r\<rparr>);
          new_pred = num_val (run_model a (scaler_transform a x))
      in ([x], Change_region_metrics r (new_pred - num_val cost)
                 (scale_quotient (py_div (new_pred - num_val cost) (num_val cost)) 100)))"
  using assms
  by (simp add: change_region_def session_formdata_eq Let_def new_dict_def encode_explicit)

lemma project_10_years_features:
  assumes "last_prediction s = Some cost" and "last_formdata s = Some b"
    and "store s b = Some fd"
  shows "snd (project_10_years a s) =
     (let x = encode (fd\<lparr>fd_age := min 100 (fd_age fd + 10)\<rparr>);
          new_pred = num_val (run_model a (scaler_transform a x))
      in ([x], Project_metrics (min 100 (fd_age fd + 10)) new_pred (new_pred - num_val cost)))"
  using assms
  by (simp add: project_10_years_def session_formdata_eq Let_def new_dict_def encode_explicit)

text \<open>
  Claim C9. The row built by the Predict Cost handler is
  \<open>[age, sex_code, bmi, children, smoker_code, region_code]\<close> with female 0, male 1,
  non-smoker 0, smoker 1, northwest 0, northeast 1, southwest 2, southeast 3; this row
  goes through the scaler and then the model. Each of the four scenarios hands the
  scaler and model the row of its modified profile under the same encoding, in the same
  order.
\<close>

theorem feature_encoding:
  assumes "last_prediction s = Some cost" and "last_formdata s = Some b"
    and "store s b = Some fd"
  shows "encode p =
           [of_int (fd_age p), (case fd_sex p of Female \<Rightarrow> 0 | Male \<Rightarrow> 1), fd_bmi p,
            of_int (fd_children p), (if fd_smoker p then 1 else 0),
            (case fd_region p of Northwest \<Rightarrow> 0 | Northeast \<Rightarrow> 1 | Southwest \<Rightarrow> 2
                               | Southeast \<Rightarrow> 3)] \<and>
         snd (predict_cost a now age sex bmi children smoker region s0) =
           (let x = encode \<lparr>fd_age = age, fd_sex = sex, fd_bmi = bmi, fd_children = children,
                            fd_smoker = smoker, fd_region = region\<rparr>
            in ([x], max0 (run_model a (scaler_transform a x)))) \<and>
         (fd_smoker fd \<longrightarrow>
            snd (quit_smoking a s) =
              (let x = encode (fd\<lparr>fd_smoker := False\<rparr>);
                   new_pred = num_val (run_model a (scaler_transform a x))
               in ([x], Quit_smoking_metrics (num_val cost - new_pred)
                          (scale_quotient (py_div (num_val cost - new_pred) (num_val cost)) 100) new_pred))) \<and>
         snd (lose_weight a s) =
           (let x = encode (fd\<lparr>fd_bmi := max 10 (fd_bmi fd - 5)\<rparr>);
                new_pred = num_val (run_model a (scaler_transform a x))
            in ([x], Lose_weight_metrics (num_val cost - new_pred)
                       (scale_quotient (py_div (num_val cost - new_pred) (num_val cost)) 100)
                       (max 10 (fd_bmi fd - 5)))) \<and>
         (case next_region (fd_region fd) of
            None \<Rightarrow> False
          | Some r \<Rightarrow>
              snd (change_region a s) =
                (let x = encode (fd\<lparr>fd_region := r\<rparr>);
                     new_pred = num_val (run_model a (scaler_transform a x))
                 in ([x], Change_region_metrics r (new_pred - num_val cost)
                            (scale_quotient (py_div (new_pred - num_val cost) (num_val cost)) 100)))) \<and>
         snd (project_10_years a s) =
           (let x = encode (fd\<lparr>fd_age := min 100 (fd_age fd + 10)\<rparr>);
                new_pred = num_val (run_model a (scaler_transform a x))
            in ([x], Project_metrics (min 100 (fd_age fd + 10)) new_pred (new_pred - num_val cost)))"
proof (intro conjI)
  show "encode p =
           [of_int (fd_age p), (case fd_sex p of Female \<Rightarrow> 0 | Male \<Rightarrow> 1), fd_bmi p,
            of_int (fd_children p), (if fd_smoker p then 1 else 0),
            (case fd_region p of Northwest \<Rightarrow> 0 | Northeast \<Rightarrow> 1 | Southwest \<Rightarrow> 2
                               | Southeast \<Rightarrow> 3)]"
    by (simp add: encode_def sex_code_def smoker_code_def region_code_def)
next
  show "snd (predict_cost a now age sex bmi children smoker region s0) =
           (let x = encode \<lparr>fd_age = age, fd_sex = sex, fd_bmi = bmi, fd_children = children,
                            fd_smoker = smoker, fd_region = region\<rparr>
            in ([x], max0 (run_model a (scaler_transform a x))))"
    by (rule predict_cost_features)
next
  show "fd_smoker fd \<longrightarrow>
            snd (quit_smoking a s) =
              (let x = encode (fd\<lparr>fd_smoker := False\<rparr>);
                   new_pred = num_val (run_model a (scaler_transform a x))
               in ([x], Quit_smoking_metrics (num_val cost - new_pred)
                          (scale_quotient (py_div (num_val cost - new_pred) (num_val cost)) 100) new_pred))"
    using quit_smoking_features [OF assms] by blast
next
  show "snd (lose_weight a s) =
           (let x = encode (fd\<lparr>fd_bmi := max 10 (fd_bmi fd - 5)\<rparr>);
                new_pred = num_val (run_model a (scaler_transform a x))
            in ([x], Lose_weight_metrics (num_val cost - new_pred)
                       (scale_quotient (py_div (num_val cost - new_pred) (num_val cost)) 100)
                       (max 10 (fd_bmi fd - 5))))"
    by (rule lose_weight_features [OF assms])
next
  obtain r where r: "next_region (fd_region fd) = Some r"
    using next_region_total by blast
  show "case next_region (fd_region fd) of
            None \<Rightarrow> False
          | Some r \<Rightarrow>
              snd (change_region a s) =
                (let x = encode (fd\<lparr>fd_region := r\<rparr>);
                     new_pred = num_val (run_model a (scaler_transform a x))
                 in ([x], Change_region_metrics r (new_pred - num_val cost)
                            (scale_quotient (py_div (new_pred - num_val cost) (num_val cost)) 100)))"
    using change_region_features [OF assms r] by (simp add: r)
next
  show "snd (project_10_years a s) =
           (let x = encode (fd\<lparr>fd_age := min 100 (fd_age fd + 10)\<rparr>);
                new_pred = num_val (run_model a (scaler_transform a x))
            in ([x], Project_metrics (min 100 (fd_age fd + 10)) new_pred (new_pred - num_val cost)))"
    by (rule project_10_years_features [OF assms])
qed

theorem feature_encoding_witness:
  "last_prediction sample_state = Some (Np_float64 24500) \<and> last_formdata sample_state = Some 0 \<and>
   store sample_state 0 = Some sample_smoker \<and> fd_smoker sample_smoker \<and>
   encode sample_smoker = [30, 1, 25, 0, 1, 0] \<and>
   fst (snd (quit_smoking sample_artifacts sample_state)) = [[30, 1, 25, 0, 0, 0]] \<and>
   snd (lose_weight sample_artifacts sample_state)
     = ([[30, 1, 20, 0, 1, 0]], Lose_weight_metrics 0 (Quot 0) 20) \<and>
   snd (change_region sample_artifacts sample_state)
     = ([[30, 1, 25, 0, 1, 1]], Change_region_metrics Northeast 0 (Quot 0)) \<and>
   snd (project_10_years sample_artifacts sample_state)
     = ([[40, 1, 25, 0, 1, 0]], Project_metrics 40 24500 0)"
proof -
  have y1: "last_prediction sample_state = Some (Np_float64 24500)"
    and y2: "last_formdata sample_state = Some 0"
    and y3: "store sample_state 0 = Some sample_smoker"
    by (simp_all add: sample_state_def)
  have yes: "fd_smoker sample_smoker" by (simp add: sample_smoker_def)
  have nxt: "next_region (fd_region sample_smoker) = Some Northeast"
    by (simp add: sample_smoker_def next_region_def regions_def)
  have enc: "encode sample_smoker = [30, 1, 25, 0, 1, 0]"
    "encode (sample_smoker\<lparr>fd_smoker := False\<rparr>) = [30, 1, 25, 0, 0, 0]"
    "encode (sample_smoker\<lparr>fd_bmi := 20\<rparr>) = [30, 1, 20, 0, 1, 0]"
    "encode (sample_smoker\<lparr>fd_region := Northeast\<rparr>) = [30, 1, 25, 0, 1, 1]"
    "encode (sample_smoker\<lparr>fd_age := 40\<rparr>) = [40, 1, 25, 0, 1, 0]"
    by (simp_all add: encode_def sample_smoker_def sex_code_def smoker_code_def region_code_def)
  have vals: "max 10 (fd_bmi sample_smoker - 5) = 20" "min 100 (fd_age sample_smoker + 10) = 40"
    by (simp_all add: sample_smoker_def)
  from feature_encoding [OF y1 y2 y3, of sample_smoker sample_artifacts] y1 y2 y3 yes nxt
  show ?thesis
    by (simp add: enc vals Let_def sample_artifacts_def run_model_def py_div_def)
qed

section \<open>Scenarios: frame\<close>

lemma copy_keeps_baseline:
  assumes "session_allocated s"
  shows "baseline_kept s (set_dict (next_addr s) fd' (snd (new_dict fd s)))"
    and "baseline_kept s (snd (new_dict fd s))"
    and "session_allocated (set_dict (next_addr s) fd' (snd (new_dict fd s)))"
    and "session_allocated (snd (new_dict fd s))"
  using assms
  by (auto simp: baseline_kept_def session_allocated_def session_formdata_def new_dict_def
      set_dict_def split: option.splits)

lemma baseline_kept_refl: "baseline_kept s s"
  by (simp add: baseline_kept_def)

lemma quit_smoking_frame:
  "session_allocated s \<Longrightarrow>
     baseline_kept s (fst (quit_smoking a s)) \<and> session_allocated (fst (quit_smoking a s))"
  using copy_keeps_baseline [of s]
  by (auto simp: quit_smoking_def Let_def baseline_kept_refl new_dict_def
      split: option.splits prod.splits)

lemma lose_weight_frame:
  "session_allocated s \<Longrightarrow>
     baseline_kept s (fst (lose_weight a s)) \<and> session_allocated (fst (lose_weight a s))"
  using copy_keeps_baseline [of s]
  by (auto simp: lose_weight_def Let_def baseline_kept_refl new_dict_def
      split: option.splits prod.splits)

lemma change_region_frame:
  "session_allocated s \<Longrightarrow>
     baseline_kept s (fst (change_region a s)) \<and> session_allocated (fst (change_region a s))"
  using copy_keeps_baseline [of s]
  by (auto simp: change_region_def Let_def baseline_kept_refl new_dict_def
      split: option.splits prod.splits)

lemma project_10_years_frame:
  "session_allocated s \<Longrightarrow>
     baseline_kept s (fst (project_10_years a s)) \<and>
     session_allocated (fst (project_10_years a s))"
  using copy_keeps_baseline [of s]
  by (auto simp: project_10_years_def Let_def baseline_kept_refl new_dict_def
      split: option.splits prod.splits)

lemma predict_cost_allocated:
  "session_allocated (fst (predict_cost a now age sex bmi children smoker region s))"
  by (simp add: predict_cost_def Let_def new_dict_def session_allocated_def)

lemma step_allocated: "session_allocated s \<Longrightarrow> session_allocated (step a s ev)"
  by (cases ev)
     (simp_all add: predict_cost_allocated quit_smoking_frame lose_weight_frame
        change_region_frame project_10_years_frame)

lemma foldl_allocated: "session_allocated s \<Longrightarrow> session_allocated (foldl (step a) s evs)"
  by (induction evs arbitrary: s) (simp_all add: step_allocated)

lemma run_allocated: "session_allocated (run a (init_state d username) evs)"
  unfolding run_def
  by (rule foldl_allocated) (simp add: session_allocated_def init_state_def)

text \<open>
  Claim C10. In every state a session can reach from login by pressing the five buttons
  in any order, each of the four scenarios leaves both tables, the session's username,
  \<open>last_prediction\<close>, the reference \<open>last_formdata\<close> and the dictionary it refers to as they
  were (the scenario writes only to its own copy); the Predict Cost handler is the one
  that adds a row to \<open>predictions\<close>.
\<close>

theorem scenarios_keep_baseline:
  "(let s = run a (init_state d username) evs in
      baseline_kept s (fst (quit_smoking a s)) \<and>
      baseline_kept s (fst (lose_weight a s)) \<and>
      baseline_kept s (fst (change_region a s)) \<and>
      baseline_kept s (fst (project_10_years a s)) \<and>
      length (predictions (db (fst (predict_cost a now age sex bmi children smoker region s))))
        = Suc (length (predictions (db s))))"
  using run_allocated [of a d username evs]
  by (simp add: Let_def quit_smoking_frame lose_weight_frame change_region_frame
      project_10_years_frame predict_cost_def new_dict_def save_prediction_def)

section \<open>Scenarios: the recomputed cost\<close>

text \<open>
  Claim C3. The scenarios take the model output as it comes: no lower bound of 0 is
  applied to \<open>new_pred\<close>. With the sample model, the smoker baseline of 24500 (reached by
  Predict Cost) and the Quit Smoking button, the new annual cost displayed is -500.
\<close>

theorem scenario_new_cost_unclamped:
  "quit_smoking sample_artifacts sample_state =
     (sample_state\<lparr>store := [0 \<mapsto> sample_smoker, 1 \<mapsto> sample_smoker\<lparr>fd_smoker := False\<rparr>],
                    next_addr := 2\<rparr>,
      [[30, 1, 25, 0, 0, 0]],
      Quit_smoking_metrics 25000 (Quot (25000 / 24500 * 100)) (- 500))"
  by (simp add: quit_smoking_def sample_state_def sample_artifacts_def sample_smoker_def
      session_formdata_def new_dict_def set_dict_def run_model_def py_div_def Let_def)

section \<open>Scenarios: a baseline of zero\<close>

lemma percent_of_zero_baseline: "scale_quotient (py_div x 0) 100 = division_by_zero x"
  by (simp add: py_div_def division_by_zero_def)

text \<open>
  Claim C2. The scenarios do not test whether the baseline cost is 0. With a baseline of
  0 (the \<open>int\<close> that the clamp returns) no scenario raises; the percent is the outcome
  of numpy's division by zero: \<open>nan\<close> when the difference of the two costs is 0,
  \<open>inf\<close> when it is positive and \<open>-inf\<close> when it is negative. Quit Smoking (for
  a smoker), Lose Weight and Change Region display that figure; Project 10 Years computes
  it and displays no percent.
\<close>

theorem zero_baseline_percent:
  assumes "last_prediction s = Some (Py_int 0)" and "last_formdata s = Some b"
    and "store s b = Some fd"
  shows "(fd_smoker fd \<longrightarrow>
            snd (snd (quit_smoking a s)) =
              (let new_pred = num_val (run_model a (scaler_transform a
                                (encode (fd\<lparr>fd_smoker := False\<rparr>))))
               in Quit_smoking_metrics (- new_pred) (division_by_zero (- new_pred)) new_pred)) \<and>
         snd (snd (lose_weight a s)) =
           (let new_pred = num_val (run_model a (scaler_transform a
                             (encode (fd\<lparr>fd_bmi := max 10 (fd_bmi fd - 5)\<rparr>))))
            in Lose_weight_metrics (- new_pred) (division_by_zero (- new_pred))
                 (max 10 (fd_bmi fd - 5))) \<and>
         (case next_region (fd_region fd) of
            None \<Rightarrow> False
          | Some r \<Rightarrow>
              snd (snd (change_region a s)) =
                (let new_pred = num_val (run_model a (scaler_transform a
                                  (encode (fd\<lparr>fd_region := r\<rparr>))))
                 in Change_region_metrics r new_pred (division_by_zero new_pred))) \<and>
         snd (snd (project_10_years a s)) =
           (let new_pred = num_val (run_model a (scaler_transform a
                             (encode (fd\<lparr>fd_age := min 100 (fd_age fd + 10)\<rparr>))))
            in Project_metrics (min 100 (fd_age fd + 10)) new_pred new_pred) \<and>
         reported_percent (snd (snd (project_10_years a s))) = None \<and>
         \<not> is_raised (snd (snd (quit_smoking a s))) \<and>
         \<not> is_raised (snd (snd (lose_weight a s))) \<and>
         \<not> is_raised (snd (snd (change_region a s))) \<and>
         \<not> is_raised (snd (snd (project_10_years a s)))"
proof -
  obtain r where r: "next_region (fd_region fd) = Some r"
    using next_region_total by blast
  have quit: "snd (snd (quit_smoking a s)) =
              (let new_pred = num_val (run_model a (scaler_transform a
                                (encode (fd\<lparr>fd_smoker := False\<rparr>))))
               in Quit_smoking_metrics (- new_pred) (division_by_zero (- new_pred)) new_pred)"
    if "fd_smoker fd"
    by (simp add: quit_smoking_features [OF assms that] Let_def percent_of_zero_baseline)
  have quit_no: "snd (snd (quit_smoking a s)) = Already_non_smoker" if "\<not> fd_smoker fd"
    using assms that by (simp add: quit_smoking_def session_formdata_eq)
  have lose: "snd (snd (lose_weight a s)) =
           (let new_pred = num_val (run_model a (scaler_transform a
                             (encode (fd\<lparr>fd_bmi := max 10 (fd_bmi fd - 5)\<rparr>))))
            in Lose_weight_metrics (- new_pred) (division_by_zero (- new_pred))
                 (max 10 (fd_bmi fd - 5)))"
    by (simp add: lose_weight_features [OF assms] Let_def percent_of_zero_baseline)
  have move: "snd (snd (change_region a s)) =
                (let new_pred = num_val (run_model a (scaler_transform a
                                  (encode (fd\<lparr>fd_region := r\<rparr>))))
                 in Change_region_metrics r new_pred (division_by_zero new_pred))"
    by (simp add: change_region_features [OF assms r] Let_def percent_of_zero_baseline)
  have older: "snd (snd (project_10_years a s)) =
           (let new_pred = num_val (run_model a (scaler_transform a
                             (encode (fd\<lparr>fd_age := min 100 (fd_age fd + 10)\<rparr>))))
            in Project_metrics (min 100 (fd_age fd + 10)) new_pred new_pred)"
    by (simp add: project_10_years_features [OF assms] Let_def)
  have no_raise: "\<not> is_raised (snd (snd (quit_smoking a s)))"
    by (cases "fd_smoker fd") (simp_all add: quit quit_no Let_def)
  from quit lose move older no_raise r show ?thesis
    by (simp add: Let_def)
qed

theorem zero_baseline_percent_witness:
  "last_prediction sample_zero_state = Some (Py_int 0) \<and>
   last_formdata sample_zero_state = Some 0 \<and>
   store sample_zero_state 0 = Some (sample_smoker\<lparr>fd_smoker := False\<rparr>) \<and>
   snd (snd (lose_weight sample_artifacts sample_zero_state)) = Lose_weight_metrics 500 Pos_inf 20 \<and>
   snd (snd (change_region sample_artifacts sample_zero_state))
     = Change_region_metrics Northeast (- 500) Neg_inf \<and>
   snd (snd (project_10_years sample_artifacts sample_zero_state))
     = Project_metrics 40 (- 500) (- 500) \<and>
   snd (snd (quit_smoking sample_artifacts (sample_zero_state\<lparr>store := [0 \<mapsto> sample_smoker]\<rparr>)))
     = Quit_smoking_metrics 500 Pos_inf (- 500)"
proof -
  let ?fd = "sample_smoker\<lparr>fd_smoker := False\<rparr>"
  let ?t = "sample_zero_state\<lparr>store := [0 \<mapsto> sample_smoker]\<rparr>"
  have z1: "last_prediction sample_zero_state = Some (Py_int 0)"
    and z2: "last_formdata sample_zero_state = Some 0"
    and z3: "store sample_zero_state 0 = Some ?fd"
    by (simp_all add: sample_zero_state_def)
  have t1: "last_prediction ?t = Some (Py_int 0)" and t2: "last_formdata ?t = Some 0"
    and t3: "store ?t 0 = Some sample_smoker"
    by (simp_all add: sample_zero_state_def)
  have yes: "fd_smoker sample_smoker" by (simp add: sample_smoker_def)
  have nxt: "next_region (fd_region ?fd) = Some Northeast"
    by (simp add: sample_smoker_def next_region_def regions_def)
  have enc: "encode (sample_smoker\<lparr>fd_smoker := False\<rparr>) = [30, 1, 25, 0, 0, 0]"
    "encode (sample_smoker\<lparr>fd_smoker := False, fd_bmi := 20\<rparr>) = [30, 1, 20, 0, 0, 0]"
    "encode (sample_smoker\<lparr>fd_smoker := False, fd_region := Northeast\<rparr>) = [30, 1, 25, 0, 0, 1]"
    "encode (sample_smoker\<lparr>fd_smoker := False, fd_age := 40\<rparr>) = [40, 1, 25, 0, 0, 0]"
    by (simp_all add: encode_def sample_smoker_def sex_code_def smoker_code_def region_code_def)
  have vals: "max 10 (fd_bmi sample_smoker - 5) = 20" "min 100 (fd_age sample_smoker + 10) = 40"
    by (simp_all add: sample_smoker_def)
  from zero_baseline_percent [OF z1 z2 z3, of sample_artifacts]
       zero_baseline_percent [OF t1 t2 t3, of sample_artifacts] z1 z2 z3 yes nxt
  show ?thesis
    by (simp add: enc vals Let_def sample_artifacts_def run_model_def division_by_zero_def)
qed

text \<open>
  The claim as it is written, at the baseline of 0 that the non-smoker of the sample
  session gets from Predict Cost: Lose Weight reports savings of 500 with the percent
  \<open>inf\<close>, which is not the not-a-number marker, and Project 10 Years reports no percent
  at all.
\<close>

theorem zero_baseline_percent_counterexample:
  "reported_percent (snd (snd (lose_weight sample_artifacts sample_zero_state))) = Some Pos_inf \<and>
   reported_percent (snd (snd (lose_weight sample_artifacts sample_zero_state))) \<noteq> Some Nan \<and>
   reported_percent (snd (snd (project_10_years sample_artifacts sample_zero_state))) = None"
  by (simp add: lose_weight_def project_10_years_def sample_zero_state_def sample_artifacts_def
      sample_smoker_def session_formdata_def new_dict_def set_dict_def run_model_def py_div_def
      division_by_zero_def Let_def)

end
